theory Spec2Isabelle
  imports Main
begin

section \<open>JavaScript values and strings\<close>

text \<open>
  The server (\<^verbatim>\<open>src/server.ts\<close>) runs on JavaScript values. A string is a sequence of
  UTF-16 code units, written here as a list of natural numbers; \<open>ascii\<close> turns an ASCII
  literal into such a list. A field of a request body carries a JSON value or is absent
  (\<open>JUndefined\<close>): \<^verbatim>\<open>null\<close>, a boolean, a number, a string, an array or an object.
  A number is integer-valued (\<open>JInt\<close>), or has a fractional part (\<open>JFrac\<close>: whether it
  is negative, its integer part and the digits after the point, as JavaScript prints
  them), or is \<open>JNaN\<close> (what \<^verbatim>\<open>parseInt\<close> answers when it finds no digit). \<open>JObj\<close> is a
  plain object, one that prints as \<^verbatim>\<open>[object Object]\<close>; the handler never looks into
  an object. Numbers that JavaScript prints with an exponent and objects with a
  \<^verbatim>\<open>toString\<close> property of their own are not part of the embedding.
\<close>

type_synonym jsstring = "nat list"

definition ascii :: "string \<Rightarrow> jsstring" where
  "ascii s = map of_char s"

datatype jsnumber = JNaN | JInt int | JFrac bool nat "nat list"

datatype jsvalue =
  JUndefined | JNull | JBool bool | JNum jsnumber | JStr jsstring | JArr "jsvalue list" | JObj

datatype jserror = TypeError

text \<open>
  \<^verbatim>\<open>String.prototype.trim\<close> and the regular-expression class \<^verbatim>\<open>\s\<close> use the same
  set: the WhiteSpace and LineTerminator code points of ECMAScript.
\<close>

definition isWhiteSpace :: "nat \<Rightarrow> bool" where
  "isWhiteSpace c =
     (c \<in> set [9, 10, 11, 12, 13, 32, 160, 5760, 8232, 8233, 8239, 8287, 12288, 65279]
      \<or> (8192 \<le> c \<and> c \<le> 8202))"

definition trimStart :: "jsstring \<Rightarrow> jsstring" where
  "trimStart s = dropWhile isWhiteSpace s"

definition trimEnd :: "jsstring \<Rightarrow> jsstring" where
  "trimEnd s = rev (dropWhile isWhiteSpace (rev s))"

definition trim :: "jsstring \<Rightarrow> jsstring" where
  "trim s = trimEnd (trimStart s)"

text \<open>
  \<^verbatim>\<open>String.prototype.toLowerCase\<close>, on the letters \<^verbatim>\<open>A\<close> to \<^verbatim>\<open>Z\<close>. The Unicode case
  tables are not embedded: every other code unit is kept as it is.
\<close>

definition lowerUnit :: "nat \<Rightarrow> nat" where
  "lowerUnit c = (if 65 \<le> c \<and> c \<le> 90 then c + 32 else c)"

definition toLowerCase :: "jsstring \<Rightarrow> jsstring" where
  "toLowerCase s = map lowerUnit s"

definition isDigit :: "nat \<Rightarrow> bool" where
  "isDigit c = (48 \<le> c \<and> c \<le> 57)"

section \<open>Input sanitization helpers\<close>

text \<open>
  \<^verbatim>\<open>
  function sanitizeInput(input: string): string {
      if (typeof input !== 'string') return '';
      return input
          .trim()
          .replace(/[<>]/g, '')
          .replace(/[&<>"']/g, (match) => {
              const escapeMap = { '&': '&amp;', '<': '&lt;', '>': '&gt;',
                                  '"': '&quot;', "'": '&#x27;' };
              return escapeMap[match] || match;
          });
  }
  \<close>
  The code units: \<^verbatim>\<open>"\<close> is 34, \<^verbatim>\<open>&\<close> is 38, \<^verbatim>\<open>'\<close> is 39, \<^verbatim>\<open><\<close> is 60 and \<^verbatim>\<open>>\<close> is 62.
\<close>

definition removeAngle :: "jsstring \<Rightarrow> jsstring" where
  "removeAngle s = filter (\<lambda>c. c \<noteq> 60 \<and> c \<noteq> 62) s"

definition escapeMap :: "nat \<Rightarrow> jsstring option" where
  "escapeMap c =
     (if c = 38 then Some (ascii ''&amp;'')
      else if c = 60 then Some (ascii ''&lt;'')
      else if c = 62 then Some (ascii ''&gt;'')
      else if c = 34 then Some (ascii ''&quot;'')
      else if c = 39 then Some (ascii ''&#x27;'')
      else None)"

definition isReserved :: "nat \<Rightarrow> bool" where
  "isReserved c = (c = 38 \<or> c = 60 \<or> c = 62 \<or> c = 34 \<or> c = 39)"

definition escapeUnit :: "nat \<Rightarrow> jsstring" where
  "escapeUnit c =
     (if isReserved c
      then (case escapeMap c of
              Some e \<Rightarrow> (if e = [] then [c] else e)
            | None \<Rightarrow> [c])
      else [c])"

definition escapeHtml :: "jsstring \<Rightarrow> jsstring" where
  "escapeHtml s = concat (map escapeUnit s)"

fun sanitizeInput :: "jsvalue \<Rightarrow> jserror + jsstring" where
  "sanitizeInput (JStr input) = Inr (escapeHtml (removeAngle (trim input)))"
| "sanitizeInput _ = Inr []"

text \<open>
  \<^verbatim>\<open>
  function sanitizePhone(phone: string): string {
      return phone.replace(/[^\d+\-() ]/g, '');
  }
  function sanitizeEmail(email: string): string {
      return email.toLowerCase().trim();
  }
  \<close>
  Neither tests the type of its argument: on a value that is not a string the method
  (\<^verbatim>\<open>replace\<close>, \<^verbatim>\<open>toLowerCase\<close>) is missing and the call throws a TypeError.
\<close>

definition isPhoneChar :: "nat \<Rightarrow> bool" where
  "isPhoneChar c = (isDigit c \<or> c = 43 \<or> c = 45 \<or> c = 40 \<or> c = 41 \<or> c = 32)"

fun sanitizePhone :: "jsvalue \<Rightarrow> jserror + jsstring" where
  "sanitizePhone (JStr phone) = Inr (filter isPhoneChar phone)"
| "sanitizePhone _ = Inl TypeError"

fun sanitizeEmail :: "jsvalue \<Rightarrow> jserror + jsstring" where
  "sanitizeEmail (JStr email) = Inr (trim (toLowerCase email))"
| "sanitizeEmail _ = Inl TypeError"

section \<open>Numbers and text\<close>

text \<open>
  The decimal digits of a natural number, and \<^verbatim>\<open>Number.prototype.toString\<close> on the
  numbers of the embedding (below \<open>10^21\<close> in size JavaScript prints an integer-valued
  number by its digits).
\<close>

function digitsOf :: "nat \<Rightarrow> jsstring" where
  "digitsOf n = (if n < 10 then [48 + n] else digitsOf (n div 10) @ [48 + n mod 10])"
  by pat_completeness auto
termination
  by (relation "measure (\<lambda>n. n)") auto

declare digitsOf.simps [simp del]

fun numberToString :: "jsnumber \<Rightarrow> jsstring" where
  "numberToString JNaN = ascii ''NaN''"
| "numberToString (JInt i) = (if i < 0 then 45 # digitsOf (nat (- i)) else digitsOf (nat i))"
| "numberToString (JFrac neg ip fds) =
     (if neg then [45] else []) @ digitsOf ip @ [46] @ map (\<lambda>d. 48 + d) fds"

text \<open>
  \<^verbatim>\<open>String(v)\<close>, which is also what a template literal puts in place of \<^verbatim>\<open>${v}\<close> and
  what a property lookup \<^verbatim>\<open>table[v]\<close> takes as its key. An array prints as its elements
  joined by commas (44), \<^verbatim>\<open>null\<close> and \<^verbatim>\<open>undefined\<close> elements as nothing.
\<close>

fun joinComma :: "jsstring list \<Rightarrow> jsstring" where
  "joinComma [] = []"
| "joinComma [s] = s"
| "joinComma (s # r # rest) = s @ [44] @ joinComma (r # rest)"

fun toStringJS :: "jsvalue \<Rightarrow> jsstring" where
  "toStringJS JUndefined = ascii ''undefined''"
| "toStringJS JNull = ascii ''null''"
| "toStringJS (JBool b) = (if b then ascii ''true'' else ascii ''false'')"
| "toStringJS (JNum n) = numberToString n"
| "toStringJS (JStr s) = s"
| "toStringJS (JArr xs) =
     joinComma (map (\<lambda>x. if x = JUndefined \<or> x = JNull then [] else toStringJS x) xs)"
| "toStringJS JObj = ascii ''[object Object]''"

text \<open>The method call \<^verbatim>\<open>v.toString()\<close>: it throws on \<^verbatim>\<open>undefined\<close> and \<^verbatim>\<open>null\<close>.\<close>

fun callToString :: "jsvalue \<Rightarrow> jserror + jsstring" where
  "callToString JUndefined = Inl TypeError"
| "callToString JNull = Inl TypeError"
| "callToString v = Inr (toStringJS v)"

text \<open>Truthiness, as \<^verbatim>\<open>||\<close> and \<^verbatim>\<open>? :\<close> test it.\<close>

fun truthy :: "jsvalue \<Rightarrow> bool" where
  "truthy JUndefined = False"
| "truthy JNull = False"
| "truthy (JBool b) = b"
| "truthy (JNum JNaN) = False"
| "truthy (JNum (JInt i)) = (i \<noteq> 0)"
| "truthy (JNum (JFrac neg ip fds)) = True"
| "truthy (JStr s) = (s \<noteq> [])"
| "truthy (JArr xs) = True"
| "truthy JObj = True"

text \<open>
  \<^verbatim>\<open>parseInt(s)\<close> with no radix: leading white space is skipped, a sign is read, the
  prefix \<^verbatim>\<open>0x\<close> or \<^verbatim>\<open>0X\<close> selects radix 16, and the longest run of digits is the
  value; no digit gives NaN.
\<close>

definition digitVal :: "nat \<Rightarrow> nat option" where
  "digitVal c =
     (if 48 \<le> c \<and> c \<le> 57 then Some (c - 48)
      else if 97 \<le> c \<and> c \<le> 122 then Some (c - 87)
      else if 65 \<le> c \<and> c \<le> 90 then Some (c - 55)
      else None)"

definition isRadixDigit :: "nat \<Rightarrow> nat \<Rightarrow> bool" where
  "isRadixDigit radix c = (case digitVal c of Some d \<Rightarrow> d < radix | None \<Rightarrow> False)"

definition valueIn :: "nat \<Rightarrow> jsstring \<Rightarrow> nat" where
  "valueIn radix z =
     foldl (\<lambda>a c. radix * a + (case digitVal c of Some d \<Rightarrow> d | None \<Rightarrow> 0)) 0 z"

definition parseInt :: "jsstring \<Rightarrow> jsnumber" where
  "parseInt inputString =
     (let s1 = trimStart inputString;
          neg = (s1 \<noteq> [] \<and> hd s1 = 45);
          s2 = (if s1 \<noteq> [] \<and> (hd s1 = 43 \<or> hd s1 = 45) then tl s1 else s1);
          hex = (take 2 s2 = ascii ''0x'' \<or> take 2 s2 = ascii ''0X'');
          radix = (if hex then 16 else 10);
          s3 = (if hex then drop 2 s2 else s2);
          z = takeWhile (isRadixDigit radix) s3
      in if z = [] then JNaN
         else JInt ((if neg then - 1 else 1) * int (valueIn radix z)))"

section \<open>Validation rules\<close>

text \<open>
  The rules are chains of the express-validator library (version 7), which is not part
  of the repository. What the embedding takes from the library:
  \<^item> a chain works on one field of the body; a validator or sanitizer receives the
    library's string form of a value (\<open>toStringEV\<close>: empty for an absent, null or NaN
    value, the value's own \<^verbatim>\<open>toString()\<close> for an array or an object, \<^verbatim>\<open>String(v)\<close>
    otherwise);
  \<^item> when the value of the field is an array, a validator tests each element and a
    sanitizer is applied to each element, the field staying an array; an empty array
    gives no error;
  \<^item> a sanitizer writes its result back into the body as it is; a failing validator
    adds one error (the message of its \<^verbatim>\<open>withMessage\<close>) and the chain goes on;
  \<^item> a chain marked \<^verbatim>\<open>optional()\<close> is skipped when its field is absent;
  \<^item> \<^verbatim>\<open>isEmail\<close>, \<^verbatim>\<open>normalizeEmail\<close> and the length that \<^verbatim>\<open>isLength\<close> counts are
    parameters (\<open>validatorLib\<close>). \<^verbatim>\<open>normalizeEmail\<close> answers a string or \<^verbatim>\<open>false\<close>
    (for an address whose local part it empties, such as \<^verbatim>\<open>+tag@gmail.com\<close>).
\<close>

datatype fieldName = ParentName | ChildName | ChildAge | Email | Phone | PreferredProgram | Message

type_synonym body = "fieldName \<Rightarrow> jsvalue"

record ValidationError =
  param :: fieldName
  msg :: jsstring
  "value" :: jsvalue

record validatorLib =
  isEmail :: "jsstring \<Rightarrow> bool"
  normalizeEmail :: "jsstring \<Rightarrow> jsvalue"
  countedLength :: "jsstring \<Rightarrow> nat"

fun toStringEV :: "jsvalue \<Rightarrow> jsstring" where
  "toStringEV JUndefined = []"
| "toStringEV JNull = []"
| "toStringEV (JNum JNaN) = []"
| "toStringEV v = toStringJS v"

datatype step = Sanitizer "jsstring \<Rightarrow> jsvalue" | Validator "jsstring \<Rightarrow> bool" jsstring

definition applySanitizer :: "(jsstring \<Rightarrow> jsvalue) \<Rightarrow> jsvalue \<Rightarrow> jsvalue" where
  "applySanitizer g v =
     (case v of JArr xs \<Rightarrow> JArr (map (\<lambda>x. g (toStringEV x)) xs) | _ \<Rightarrow> g (toStringEV v))"

definition failures ::
    "fieldName \<Rightarrow> (jsstring \<Rightarrow> bool) \<Rightarrow> jsstring \<Rightarrow> jsvalue \<Rightarrow> ValidationError list" where
  "failures f p m v =
     concat (map (\<lambda>x. if p (toStringEV x) then [] else [\<lparr>param = f, msg = m, value = x\<rparr>])
       (case v of JArr xs \<Rightarrow> xs | _ \<Rightarrow> [v]))"

fun runSteps :: "fieldName \<Rightarrow> step list \<Rightarrow> jsvalue \<Rightarrow> jsvalue \<times> ValidationError list" where
  "runSteps f [] v = (v, [])"
| "runSteps f (Sanitizer g # rest) v = runSteps f rest (applySanitizer g v)"
| "runSteps f (Validator p m # rest) v =
     (let (v', es) = runSteps f rest v in (v', failures f p m v @ es))"

text \<open>The library's \<^verbatim>\<open>trim\<close> removes the same white space as \<open>trim\<close> and answers a string.\<close>

definition trimmed :: "jsstring \<Rightarrow> jsvalue" where
  "trimmed s = JStr (trim s)"

record chain =
  chainField :: fieldName
  isOptional :: bool
  steps :: "step list"

definition runField :: "chain \<Rightarrow> jsvalue \<Rightarrow> jsvalue \<times> ValidationError list" where
  "runField c v =
     (if isOptional c \<and> v = JUndefined then (v, [])
      else runSteps (chainField c) (steps c) v)"

definition runChain :: "chain \<Rightarrow> body \<Rightarrow> body \<times> ValidationError list" where
  "runChain c b =
     (let (v', es) = runField c (b (chainField c)) in (b(chainField c := v'), es))"

fun runChains :: "chain list \<Rightarrow> body \<Rightarrow> body \<times> ValidationError list" where
  "runChains [] b = (b, [])"
| "runChains (c # cs) b =
     (let (b1, es1) = runChain c b; (b2, es2) = runChains cs b1 in (b2, es1 @ es2))"

text \<open>The validators of the rules.\<close>

definition notEmpty :: "jsstring \<Rightarrow> bool" where
  "notEmpty s = (s \<noteq> [])"

definition isLength :: "validatorLib \<Rightarrow> nat \<Rightarrow> nat option \<Rightarrow> jsstring \<Rightarrow> bool" where
  "isLength lib lo hi s =
     (lo \<le> countedLength lib s \<and> (case hi of None \<Rightarrow> True | Some m \<Rightarrow> countedLength lib s \<le> m))"

text \<open>
  \<^verbatim>\<open>/^[a-zA-Z\s...]+$/\<close>, the dots standing for the ranges U+3040 to U+309F, U+30A0 to U+30FF
  and U+4E00 to U+9FAF (no flag: the pattern reads one code unit at a time), and
  \<^verbatim>\<open>/^[\d+\-() ]{10,20}$/\<close>.
\<close>

definition isNameChar :: "nat \<Rightarrow> bool" where
  "isNameChar c =
     ((97 \<le> c \<and> c \<le> 122) \<or> (65 \<le> c \<and> c \<le> 90) \<or> isWhiteSpace c
      \<or> (12352 \<le> c \<and> c \<le> 12447) \<or> (12448 \<le> c \<and> c \<le> 12543)
      \<or> (19968 \<le> c \<and> c \<le> 40879))"

definition matchesName :: "jsstring \<Rightarrow> bool" where
  "matchesName s = (s \<noteq> [] \<and> list_all isNameChar s)"

definition matchesPhone :: "jsstring \<Rightarrow> bool" where
  "matchesPhone s = (10 \<le> length s \<and> length s \<le> 20 \<and> list_all isPhoneChar s)"

text \<open>
  \<^verbatim>\<open>isInt\<close> is the validator behind \<^verbatim>\<open>.isInt({ min: 2, max: 12 })\<close>; it belongs to
  the library (validator.js) and its code is not in the repository. It accepts a text
  that is an optional sign and decimal digits (the pattern \<^verbatim>\<open>/^[-+]?[0-9]+$/\<close>) and
  that, read as a number, is at least \<^verbatim>\<open>min\<close> and at most \<^verbatim>\<open>max\<close>.
  \<open>signedDecimal\<close> answers that number.
\<close>

definition decimalValue :: "jsstring \<Rightarrow> nat" where
  "decimalValue ds = foldl (\<lambda>a c. 10 * a + (c - 48)) 0 ds"

definition signedDecimal :: "jsstring \<Rightarrow> int option" where
  "signedDecimal s =
     (let neg = (s \<noteq> [] \<and> hd s = 45);
          ds = (if s \<noteq> [] \<and> (hd s = 43 \<or> hd s = 45) then tl s else s)
      in if ds \<noteq> [] \<and> list_all isDigit ds
         then Some ((if neg then - 1 else 1) * int (decimalValue ds))
         else None)"

definition isInt :: "int \<Rightarrow> int \<Rightarrow> jsstring \<Rightarrow> bool" where
  "isInt lo hi s = (case signedDecimal s of None \<Rightarrow> False | Some v \<Rightarrow> lo \<le> v \<and> v \<le> hi)"

definition isIn :: "jsstring list \<Rightarrow> jsstring \<Rightarrow> bool" where
  "isIn allowed s = (s \<in> set allowed)"

definition programKeys :: "jsstring list" where
  "programKeys =
     [ascii ''toddlers'', ascii ''preschool'', ascii ''lower-elementary'',
      ascii ''upper-elementary'', ascii ''not-sure'', []]"

text \<open>\<^verbatim>\<open>const inquiryValidation = [ body('parentName')... ]\<close> (lines 150 to 185).\<close>

definition parentNameRule :: "validatorLib \<Rightarrow> chain" where
  "parentNameRule lib =
     \<lparr>chainField = ParentName, isOptional = False,
      steps =
        [Sanitizer trimmed,
         Validator notEmpty (ascii ''Parent name is required''),
         Validator (isLength lib 2 (Some 100))
           (ascii ''Parent name must be between 2 and 100 characters''),
         Validator matchesName (ascii ''Parent name contains invalid characters'')]\<rparr>"

definition childNameRule :: "validatorLib \<Rightarrow> chain" where
  "childNameRule lib =
     \<lparr>chainField = ChildName, isOptional = False,
      steps =
        [Sanitizer trimmed,
         Validator notEmpty (ascii ''Child name is required''),
         Validator (isLength lib 2 (Some 100))
           (ascii ''Child name must be between 2 and 100 characters''),
         Validator matchesName (ascii ''Child name contains invalid characters'')]\<rparr>"

definition childAgeRule :: chain where
  "childAgeRule =
     \<lparr>chainField = ChildAge, isOptional = False,
      steps = [Validator (isInt 2 12) (ascii ''Child age must be between 2 and 12 years'')]\<rparr>"

definition emailRule :: "validatorLib \<Rightarrow> chain" where
  "emailRule lib =
     \<lparr>chainField = Email, isOptional = False,
      steps =
        [Sanitizer trimmed,
         Validator notEmpty (ascii ''Email is required''),
         Validator (isEmail lib) (ascii ''Please provide a valid email address''),
         Sanitizer (normalizeEmail lib)]\<rparr>"

definition phoneRule :: chain where
  "phoneRule =
     \<lparr>chainField = Phone, isOptional = False,
      steps =
        [Sanitizer trimmed,
         Validator notEmpty (ascii ''Phone number is required''),
         Validator matchesPhone (ascii ''Please provide a valid phone number'')]\<rparr>"

definition preferredProgramRule :: chain where
  "preferredProgramRule =
     \<lparr>chainField = PreferredProgram, isOptional = True,
      steps = [Validator (isIn programKeys) (ascii ''Invalid program selection'')]\<rparr>"

definition messageRule :: "validatorLib \<Rightarrow> chain" where
  "messageRule lib =
     \<lparr>chainField = Message, isOptional = True,
      steps =
        [Sanitizer trimmed,
         Validator (isLength lib 0 (Some 1000))
           (ascii ''Message must not exceed 1000 characters'')]\<rparr>"

definition inquiryValidation :: "validatorLib \<Rightarrow> chain list" where
  "inquiryValidation lib =
     [parentNameRule lib, childNameRule lib, childAgeRule,
      emailRule lib, phoneRule, preferredProgramRule, messageRule lib]"

section \<open>Formatting an inquiry\<close>

text \<open>
  \<^verbatim>\<open>InquiryFormData\<close> and \<^verbatim>\<open>FormattedInquiry\<close> have the same fields but for two
  points: \<^verbatim>\<open>message\<close> is optional in the first and a string in the second, and the
  second adds \<^verbatim>\<open>formattedText\<close>. One record with the type of \<^verbatim>\<open>message\<close> as its
  parameter gives both.
\<close>

record 'm InquiryFields =
  parentName :: jsstring
  childName :: jsstring
  childAge :: jsnumber
  email :: jsstring
  phone :: jsstring
  preferredProgram :: jsstring
  message :: 'm

type_synonym InquiryFormData = "jsstring option InquiryFields"

record FormattedInquiry = "jsstring InquiryFields" +
  formattedText :: jsstring

text \<open>
  \<^verbatim>\<open>
  const programNames: { [key: string]: string } = {
      'toddlers': 'Toddlers (Ages 2-3)', 'preschool': 'Preschool (Ages 4-5)',
      'lower-elementary': 'Lower Elementary (Ages 6-8)',
      'upper-elementary': 'Upper Elementary (Ages 9-12)',
      'not-sure': 'Not sure yet', '': 'Not specified' };
  const programName = programNames[data.preferredProgram] || data.preferredProgram;
  \<close>
  \<open>programNames\<close> is an object literal, so a lookup that finds no own key goes on to
  \<^verbatim>\<open>Object.prototype\<close>: under one of the names of \<open>objectPrototypeKeys\<close> it finds an
  inherited member (a function; an object for \<^verbatim>\<open>__proto__\<close>), which is truthy, and
  \<^verbatim>\<open>||\<close> keeps it.
\<close>

definition programNames :: "jsstring \<Rightarrow> jsstring option" where
  "programNames key =
     (if key = ascii ''toddlers'' then Some (ascii ''Toddlers (Ages 2-3)'')
      else if key = ascii ''preschool'' then Some (ascii ''Preschool (Ages 4-5)'')
      else if key = ascii ''lower-elementary'' then Some (ascii ''Lower Elementary (Ages 6-8)'')
      else if key = ascii ''upper-elementary'' then Some (ascii ''Upper Elementary (Ages 9-12)'')
      else if key = ascii ''not-sure'' then Some (ascii ''Not sure yet'')
      else if key = [] then Some (ascii ''Not specified'')
      else None)"

definition objectPrototypeKeys :: "jsstring list" where
  "objectPrototypeKeys =
     [ascii ''constructor'', ascii ''hasOwnProperty'', ascii ''isPrototypeOf'',
      ascii ''propertyIsEnumerable'', ascii ''toLocaleString'', ascii ''toString'',
      ascii ''valueOf'', ascii ''__proto__'', ascii ''__defineGetter__'',
      ascii ''__defineSetter__'', ascii ''__lookupGetter__'', ascii ''__lookupSetter__'']"

datatype label = Text jsstring | PrototypeMember jsstring

definition programName :: "jsstring \<Rightarrow> label" where
  "programName key =
     (case programNames key of
        Some v \<Rightarrow> (if v = [] then Text key else Text v)
      | None \<Rightarrow> (if key \<in> set objectPrototypeKeys then PrototypeMember key else Text key))"

text \<open>
  What the template literal prints for a label. For an inherited member this is the text
  Node.js gives a built-in function (\<^verbatim>\<open>Object\<close> is the function found under
  \<^verbatim>\<open>constructor\<close>) and a plain object.
\<close>

fun labelText :: "label \<Rightarrow> jsstring" where
  "labelText (Text s) = s"
| "labelText (PrototypeMember k) =
     (if k = ascii ''__proto__'' then ascii ''[object Object]''
      else ascii ''function '' @ (if k = ascii ''constructor'' then ascii ''Object'' else k)
           @ ascii ''() { [native code] }'')"

text \<open>
  The template literal of lines 86 to 106 is a line feed (10), the lines 87 to 105 and,
  after the last of them, a line feed and four blanks; \<^verbatim>\<open>.trim()\<close> is applied to the
  whole. The emoji are surrogate pairs, the bullet is U+2022 (8226), and U+200D (8205)
  joins the family emoji. \<open>now\<close> is the text of
  \<^verbatim>\<open>new Date().toLocaleString('ja-JP', { timeZone: 'Asia/Tokyo' })\<close>.
\<close>

definition defaultMessage :: jsstring where
  "defaultMessage = ascii ''No additional message provided.''"

definition templateLines ::
    "jsstring \<Rightarrow> InquiryFormData \<Rightarrow> jsstring \<Rightarrow> jsstring \<Rightarrow> jsstring" where
  "templateLines now data programText messageText =
     [55357, 56538] @ ascii '' *New Inquiry - Kumagaya Kids English*'' @ [10]
     @ [10]
     @ [55357, 56424, 8205, 55357, 56425, 8205, 55357, 56423]
     @ ascii '' *Parent Information:*'' @ [10]
     @ [8226] @ ascii '' Name: '' @ parentName data @ [10]
     @ [8226] @ ascii '' Email: '' @ email data @ [10]
     @ [8226] @ ascii '' Phone: '' @ phone data @ [10]
     @ [10]
     @ [55357, 56438] @ ascii '' *Child Information:*'' @ [10]
     @ [8226] @ ascii '' Name: '' @ childName data @ [10]
     @ [8226] @ ascii '' Age: '' @ numberToString (childAge data) @ ascii '' years old'' @ [10]
     @ [10]
     @ [55357, 56534] @ ascii '' *Program Interest:*'' @ [10]
     @ programText @ [10]
     @ [10]
     @ [55357, 56492] @ ascii '' *Message:*'' @ [10]
     @ messageText @ [10]
     @ [10]
     @ ascii ''---'' @ [10]
     @ ascii ''_Received at '' @ now @ ascii ''_''"

definition formatInquiry :: "jsstring \<Rightarrow> InquiryFormData \<Rightarrow> FormattedInquiry" where
  "formatInquiry now data =
     (let programName' = programName (preferredProgram data);
          message' = (case message data of
                        None \<Rightarrow> defaultMessage
                      | Some m \<Rightarrow> (if m = [] then defaultMessage else m));
          formattedText' =
            trim ([10] @ templateLines now data (labelText programName') message'
                  @ [10] @ ascii ''    '')
      in \<lparr>parentName = parentName data, childName = childName data,
          childAge = childAge data, email = email data, phone = phone data,
          preferredProgram = preferredProgram data,
          message = message', formattedText = formattedText'\<rparr>)"

section \<open>Outbound calls and the request handler\<close>

text \<open>
  \<^verbatim>\<open>sendToTelegram\<close> posts the formatted text and answers whether the reply has status
  200. The HTTP client throws on a network error, on a timeout and on a status outside
  200 to 299, and the \<^verbatim>\<open>catch\<close> answers \<^verbatim>\<open>false\<close>. \<^verbatim>\<open>sendConfirmationEmail\<close> logs,
  waits and answers \<^verbatim>\<open>true\<close>.
\<close>

datatype netOutcome = Replied nat | NetFailure

fun sendToTelegram :: "netOutcome \<Rightarrow> FormattedInquiry \<Rightarrow> bool" where
  "sendToTelegram (Replied st) formattedInquiry =
     (if 200 \<le> st \<and> st < 300 then st = 200 else False)"
| "sendToTelegram NetFailure formattedInquiry = False"

definition sendConfirmationEmail :: "jsstring \<Rightarrow> jsstring \<Rightarrow> bool" where
  "sendConfirmationEmail emailTo childNameOf = True"

datatype outbound = TelegramSendMessage jsstring | ConfirmationEmail jsstring jsstring

text \<open>
  The response: the status and the JSON body. \<open>ack\<close> is the \<^verbatim>\<open>message\<close> of
  \<^verbatim>\<open>ApiResponse\<close> (the name \<open>message\<close> is the inquiry's field here).
\<close>

record HttpResponse =
  status :: nat
  success :: bool
  ack :: "jsstring option"
  error :: "jsstring option"
  errors :: "ValidationError list option"

text \<open>
  \<^verbatim>\<open>
  const sanitizedData: InquiryFormData = {
      parentName: sanitizeInput(rawData.parentName),
      childName: sanitizeInput(rawData.childName),
      childAge: parseInt(rawData.childAge.toString()),
      email: sanitizeEmail(rawData.email),
      phone: sanitizePhone(rawData.phone),
      preferredProgram: rawData.preferredProgram || '',
      message: rawData.message ? sanitizeInput(rawData.message) : ''
  };
  \<close>
  The properties are evaluated in this order, and the first exception ends the
  evaluation (\<open>andThen\<close>). \<^verbatim>\<open>rawData.preferredProgram || ''\<close> keeps a truthy value as it is; the field
  of the record being text, the embedding stores the value's string form, which is what
  the lookup and the template make of it.
\<close>

definition andThen :: "jserror + 'a \<Rightarrow> ('a \<Rightarrow> jserror + 'b) \<Rightarrow> jserror + 'b" where
  "andThen r k = (case r of Inl e \<Rightarrow> Inl e | Inr x \<Rightarrow> k x)"

definition sanitizedData :: "body \<Rightarrow> jserror + InquiryFormData" where
  "sanitizedData rawData =
     andThen (sanitizeInput (rawData ParentName)) (\<lambda>pn.
     andThen (sanitizeInput (rawData ChildName)) (\<lambda>cn.
     andThen (callToString (rawData ChildAge)) (\<lambda>age.
     andThen (sanitizeEmail (rawData Email)) (\<lambda>em.
     andThen (sanitizePhone (rawData Phone)) (\<lambda>ph.
     andThen (if truthy (rawData Message) then sanitizeInput (rawData Message) else Inr [])
       (\<lambda>m.
     Inr \<lparr>parentName = pn, childName = cn, childAge = parseInt age, email = em, phone = ph,
          preferredProgram =
            (if truthy (rawData PreferredProgram) then toStringJS (rawData PreferredProgram)
             else []),
          message = Some m\<rparr>))))))"

definition acknowledgment :: jsstring where
  "acknowledgment =
     ascii ''Thank you! Your inquiry has been received. We will contact you within 24 hours.''"

text \<open>
  The handler of \<^verbatim>\<open>POST /api/inquiry\<close> (lines 188 to 247). The validation chains run
  first, as middleware, and leave their sanitized values in the body. The result is the
  response and the outbound calls made, in order.
\<close>

definition inquiryHandler ::
    "validatorLib \<Rightarrow> jsstring \<Rightarrow> netOutcome \<Rightarrow> body \<Rightarrow> HttpResponse \<times> outbound list" where
  "inquiryHandler lib now net reqBody =
     (let (rawData, errs) = runChains (inquiryValidation lib) reqBody
      in if errs \<noteq> []
         then (\<lparr>status = 400, success = False, ack = None,
                 error = Some (ascii ''Validation failed''), errors = Some errs\<rparr>, [])
         else (case sanitizedData rawData of
                 Inl e \<Rightarrow>
                   (\<lparr>status = 500, success = False, ack = None,
                     error = Some (ascii
                       ''An internal server error occurred. Please try again later.''),
                     errors = None\<rparr>, [])
               | Inr sanitized \<Rightarrow>
                   (let formattedInquiry = formatInquiry now sanitized;
                        telegramSuccess = sendToTelegram net formattedInquiry;
                        emailSuccess =
                          sendConfirmationEmail (email sanitized) (childName sanitized)
                    in (\<lparr>status = 200, success = True, ack = Some acknowledgment,
                          error = None, errors = None\<rparr>,
                        [TelegramSendMessage (formattedText formattedInquiry),
                         ConfirmationEmail (email sanitized) (childName sanitized)]))))"

section \<open>Notions used in the statements\<close>

text \<open>
  The integer a value of the body stands for: a number's own value, or the one a text
  spells with an optional sign and decimal digits (a form submitted url-encoded carries
  the age as text, and the handler reads it with \<^verbatim>\<open>parseInt\<close>).
\<close>

fun integerOf :: "jsvalue \<Rightarrow> int option" where
  "integerOf (JNum (JInt n)) = Some n"
| "integerOf (JStr s) = signedDecimal s"
| "integerOf _ = None"


text \<open>
  Stand-ins for the library's parameters, for running the handler on a concrete
  request: an address is taken as valid when it holds an \<^verbatim>\<open>@\<close> (64), and the counted
  length is the number of code units. Normalizing answers \<^verbatim>\<open>false\<close> for
  \<^verbatim>\<open>+tag@gmail.com\<close>, as the library does, and lower-cases any other address, as the
  library does for \<^verbatim>\<open>A@Example.com\<close>.
\<close>

definition sampleLib :: validatorLib where
  "sampleLib =
     \<lparr>isEmail = (\<lambda>s. 64 \<in> set s),
      normalizeEmail =
        (\<lambda>s. if s = ascii ''+tag@gmail.com'' then JBool False else JStr (toLowerCase s)),
      countedLength = length\<rparr>"

text \<open>The request of the specification's end-to-end scenario, and a request with no field.\<close>

definition janeDoe :: body where
  "janeDoe =
     (\<lambda>f. JUndefined)
       (ParentName := JStr (ascii ''Jane Doe''), ChildName := JStr (ascii ''Tom Doe''),
        ChildAge := JNum (JInt 5), Email := JStr (ascii ''A@Example.com''),
        Phone := JStr (ascii ''+81-90-1234-5678''),
        PreferredProgram := JStr (ascii ''toddlers''), Message := JStr [])"

definition emptyBody :: body where
  "emptyBody = (\<lambda>f. JUndefined)"

section \<open>Trimming and lower-casing\<close>

lemma trimEnd_prefix: "\<exists>ws. s = trimEnd s @ ws"
proof -
  have "rev (takeWhile isWhiteSpace (rev s) @ dropWhile isWhiteSpace (rev s)) = s"
    by (simp only: takeWhile_dropWhile_id rev_rev_ident)
  then have "s = trimEnd s @ rev (takeWhile isWhiteSpace (rev s))"
    by (simp only: trimEnd_def rev_append)
  then show ?thesis ..
qed

lemma trimStart_noop: "s = [] \<or> \<not> isWhiteSpace (hd s) \<Longrightarrow> trimStart s = s"
  by (cases s) (auto simp: trimStart_def)

lemma trimStart_head: "trimStart s = [] \<or> \<not> isWhiteSpace (hd (trimStart s))"
  unfolding trimStart_def by (metis hd_dropWhile)

lemma trimEnd_head: "s = [] \<or> \<not> isWhiteSpace (hd s) \<Longrightarrow> trimEnd s = [] \<or> \<not> isWhiteSpace (hd (trimEnd s))"
proof -
  assume a: "s = [] \<or> \<not> isWhiteSpace (hd s)"
  obtain ws where ws: "s = trimEnd s @ ws" using trimEnd_prefix by blast
  show ?thesis
  proof (cases "trimEnd s = []")
    case True then show ?thesis by simp
  next
    case False
    then have "hd s = hd (trimEnd s)" using ws by (metis hd_append2)
    moreover have "s \<noteq> []" using False ws by auto
    ultimately show ?thesis using a by simp
  qed
qed

lemma trimEnd_idem: "trimEnd (trimEnd s) = trimEnd s"
  by (simp add: trimEnd_def)

lemma trim_idem: "trim (trim s) = trim s"
proof -
  have "trimStart (trim s) = trim s"
    unfolding trim_def by (rule trimStart_noop, rule trimEnd_head, rule trimStart_head)
  then show ?thesis by (simp add: trim_def trimEnd_idem)
qed

lemma isWhiteSpace_lowerUnit: "isWhiteSpace (lowerUnit c) = isWhiteSpace c"
  by (auto simp: isWhiteSpace_def lowerUnit_def)

lemma lowerUnit_idem: "lowerUnit (lowerUnit c) = lowerUnit c"
  by (simp add: lowerUnit_def)

lemma toLowerCase_idem: "toLowerCase (toLowerCase s) = toLowerCase s"
  by (simp add: toLowerCase_def lowerUnit_idem)

lemma toLowerCase_trim: "toLowerCase (trim s) = trim (toLowerCase s)"
  by (simp add: toLowerCase_def trim_def trimStart_def trimEnd_def dropWhile_map rev_map comp_def isWhiteSpace_lowerUnit)

lemma trim_framed:
  assumes "xs \<noteq> []" "\<not> isWhiteSpace (hd xs)" "\<not> isWhiteSpace (last xs)"
    and "list_all isWhiteSpace l" "list_all isWhiteSpace r"
  shows "trim (l @ xs @ r) = xs"
proof -
  have "trimStart (l @ xs @ r) = xs @ r"
  proof -
    have "dropWhile isWhiteSpace (l @ xs @ r) = dropWhile isWhiteSpace (xs @ r)"
      using assms(4) by (intro dropWhile_append2) (simp add: list_all_iff)
    then show ?thesis
      using assms(1,2) by (cases xs) (simp_all add: trimStart_def)
  qed
  moreover have "trimEnd (xs @ r) = xs"
  proof -
    have "dropWhile isWhiteSpace (rev r @ rev xs) = dropWhile isWhiteSpace (rev xs)"
      using assms(5) by (intro dropWhile_append2) (simp add: list_all_iff)
    moreover have "dropWhile isWhiteSpace (rev xs) = rev xs"
      using assms(1,3) by (cases "rev xs") (simp_all add: last_rev [symmetric] hd_rev)
    ultimately show ?thesis by (simp add: trimEnd_def)
  qed
  ultimately show ?thesis by (simp add: trim_def)
qed

text \<open>
  Lower-casing and then trimming is idempotent for every lower-casing function that is
  idempotent itself and commutes with trimming; the table of \<open>lowerUnit\<close> plays no other
  part in the result below.
\<close>

lemma lowercase_then_trim_idempotent:
  assumes "\<And>s. L (L s) = L s" and "\<And>s. L (trim s) = trim (L s)"
  shows "trim (L (trim (L x))) = trim (L x)"
  by (simp add: assms trim_idem)

text \<open>
  Claim C7. \<^verbatim>\<open>sanitizeEmail\<close> is idempotent: applied to its own result on a string, it
  returns that result again.
\<close>

theorem sanitizeEmail_idempotent:
  "\<exists>y. sanitizeEmail (JStr x) = Inr y \<and> sanitizeEmail (JStr y) = Inr y"
  using lowercase_then_trim_idempotent [of toLowerCase x]
  by (simp add: toLowerCase_trim toLowerCase_idem)

section \<open>The sanitizers\<close>













section \<open>The formatter\<close>



text \<open>
  The lookup \<^verbatim>\<open>programNames[data.preferredProgram]\<close> is made on a plain object, so a
  direct call with the name of a member that every object inherits finds that member:
  under \<^verbatim>\<open>constructor\<close> the label is the function \<^verbatim>\<open>Object\<close>, and the text printed for
  it is not the key. \<^verbatim>\<open>formatInquiry\<close> is not exported and its one call is in the handler,
  after validation, which refuses these names (\<open>inherited_name_never_formatted\<close> below).
\<close>

lemma programName_constructor_inherited:
  "programName (ascii ''constructor'') = PrototypeMember (ascii ''constructor'')
   \<and> programName (ascii ''constructor'') \<noteq> Text (ascii ''constructor'')
   \<and> labelText (programName (ascii ''constructor'')) = ascii ''function Object() { [native code] }''"
  by (simp add: programName_def programNames_def objectPrototypeKeys_def ascii_def)

lemma templateLines_ends:
  "templateLines now data p m \<noteq> [] \<and> hd (templateLines now data p m) = 55357
   \<and> last (templateLines now data p m) = 95"
  by (simp add: templateLines_def ascii_def)

lemma formattedText_closed:
  "formattedText (formatInquiry now data) =
     templateLines now data (labelText (programName (preferredProgram data)))
       (message (formatInquiry now data))"
proof -
  have "trim ([10] @ templateLines now data p m @ [10] @ ascii ''    '') = templateLines now data p m"
    for p m
    using templateLines_ends [of now data p m]
    by (intro trim_framed) (simp_all add: isWhiteSpace_def ascii_def)
  then show ?thesis
    by (simp add: formatInquiry_def Let_def)
qed

lemma sub_here: "\<exists>pre post. x @ rest = pre @ x @ post"
  by (rule exI [where x = "[]"]) simp

lemma sub_skip: "\<exists>pre post. ys = pre @ x @ post \<Longrightarrow> \<exists>pre post. zs @ ys = pre @ x @ post"
  by (metis append.assoc)

lemma message_formatInquiry:
  "message (formatInquiry now data) =
     (if message data = None \<or> message data = Some [] then defaultMessage
      else the (message data))"
  by (auto simp: formatInquiry_def Let_def split: option.splits)

text \<open>
  Claim C8. \<^verbatim>\<open>formatInquiry\<close> has no error result: it is a total function of the record
  and the time, and no operation in it can throw on a record of strings and a number.
  Its text is the template of lines 86 to 106 with the frame of the literal trimmed
  away: the header; the parent's name, mail address and phone; the child's name and
  age; the label of the program; the message, or the placeholder for an absent or empty
  one; the rule and the time stamp, in this order and with these fixed words. The
  parent's name and the child's name of the record stand in it as they are.
\<close>

theorem formattedText_contains_names:
  "formattedText (formatInquiry now data) =
     [55357, 56538] @ ascii '' *New Inquiry - Kumagaya Kids English*'' @ [10]
     @ [10]
     @ [55357, 56424, 8205, 55357, 56425, 8205, 55357, 56423]
     @ ascii '' *Parent Information:*'' @ [10]
     @ [8226] @ ascii '' Name: '' @ parentName data @ [10]
     @ [8226] @ ascii '' Email: '' @ email data @ [10]
     @ [8226] @ ascii '' Phone: '' @ phone data @ [10]
     @ [10]
     @ [55357, 56438] @ ascii '' *Child Information:*'' @ [10]
     @ [8226] @ ascii '' Name: '' @ childName data @ [10]
     @ [8226] @ ascii '' Age: '' @ numberToString (childAge data) @ ascii '' years old'' @ [10]
     @ [10]
     @ [55357, 56534] @ ascii '' *Program Interest:*'' @ [10]
     @ labelText (programName (preferredProgram data)) @ [10]
     @ [10]
     @ [55357, 56492] @ ascii '' *Message:*'' @ [10]
     @ (if message data = None \<or> message data = Some [] then defaultMessage
        else the (message data)) @ [10]
     @ [10]
     @ ascii ''---'' @ [10]
     @ ascii ''_Received at '' @ now @ ascii ''_''
   \<and> (\<exists>pre post. formattedText (formatInquiry now data) = pre @ parentName data @ post)
   \<and> (\<exists>pre post. formattedText (formatInquiry now data) = pre @ childName data @ post)"
proof -
  have closed:
    "formattedText (formatInquiry now data) =
     [55357, 56538] @ ascii '' *New Inquiry - Kumagaya Kids English*'' @ [10]
     @ [10]
     @ [55357, 56424, 8205, 55357, 56425, 8205, 55357, 56423]
     @ ascii '' *Parent Information:*'' @ [10]
     @ [8226] @ ascii '' Name: '' @ parentName data @ [10]
     @ [8226] @ ascii '' Email: '' @ email data @ [10]
     @ [8226] @ ascii '' Phone: '' @ phone data @ [10]
     @ [10]
     @ [55357, 56438] @ ascii '' *Child Information:*'' @ [10]
     @ [8226] @ ascii '' Name: '' @ childName data @ [10]
     @ [8226] @ ascii '' Age: '' @ numberToString (childAge data) @ ascii '' years old'' @ [10]
     @ [10]
     @ [55357, 56534] @ ascii '' *Program Interest:*'' @ [10]
     @ labelText (programName (preferredProgram data)) @ [10]
     @ [10]
     @ [55357, 56492] @ ascii '' *Message:*'' @ [10]
     @ (if message data = None \<or> message data = Some [] then defaultMessage
        else the (message data)) @ [10]
     @ [10]
     @ ascii ''---'' @ [10]
     @ ascii ''_Received at '' @ now @ ascii ''_''"
    unfolding formattedText_closed templateLines_def message_formatInquiry by (rule refl)
  have p: "\<exists>pre post. formattedText (formatInquiry now data) = pre @ parentName data @ post"
    unfolding closed by (rule sub_here | rule sub_skip)+
  have c: "\<exists>pre post. formattedText (formatInquiry now data) = pre @ childName data @ post"
    unfolding closed by (rule sub_here | rule sub_skip)+
  show ?thesis
    by (intro conjI) (rule closed, rule p, rule c)
qed

text \<open>
  Claim C10. \<^verbatim>\<open>formatInquiry\<close> returns the fields of its record unchanged but for the
  message, which is the placeholder when the record's message is absent or empty and the
  record's message otherwise; \<^verbatim>\<open>formattedText\<close> is the one field added.
\<close>

theorem formatInquiry_frame:
  "formatInquiry now data =
     \<lparr>parentName = parentName data, childName = childName data, childAge = childAge data,
      email = email data, phone = phone data, preferredProgram = preferredProgram data,
      message = (if message data = None \<or> message data = Some [] then defaultMessage
                 else the (message data)),
      formattedText = formattedText (formatInquiry now data)\<rparr>"
  by (auto simp: formatInquiry_def Let_def split: option.splits)

section \<open>Validation\<close>

lemma chainFields:
  "chainField (parentNameRule lib) = ParentName"
  "chainField (childNameRule lib) = ChildName"
  "chainField childAgeRule = ChildAge"
  "chainField (emailRule lib) = Email"
  "chainField phoneRule = Phone"
  "chainField preferredProgramRule = PreferredProgram"
  "chainField (messageRule lib) = Message"
  by (simp_all add: parentNameRule_def childNameRule_def childAgeRule_def
      emailRule_def phoneRule_def preferredProgramRule_def messageRule_def)

lemma runChains_inquiryValidation:
  "runChains (inquiryValidation lib) b =
     (b(ParentName := fst (runField (parentNameRule lib) (b ParentName)),
        ChildName := fst (runField (childNameRule lib) (b ChildName)),
        ChildAge := fst (runField childAgeRule (b ChildAge)),
        Email := fst (runField (emailRule lib) (b Email)),
        Phone := fst (runField phoneRule (b Phone)),
        PreferredProgram := fst (runField preferredProgramRule (b PreferredProgram)),
        Message := fst (runField (messageRule lib) (b Message))),
      snd (runField (parentNameRule lib) (b ParentName))
      @ snd (runField (childNameRule lib) (b ChildName))
      @ snd (runField childAgeRule (b ChildAge))
      @ snd (runField (emailRule lib) (b Email))
      @ snd (runField phoneRule (b Phone))
      @ snd (runField preferredProgramRule (b PreferredProgram))
      @ snd (runField (messageRule lib) (b Message)))"
  by (simp add: inquiryValidation_def runChain_def chainFields split_beta Let_def)

lemma fst_runField_parentName:
  "fst (runField (parentNameRule lib) v) = applySanitizer trimmed v"
  by (simp add: runField_def parentNameRule_def split_beta Let_def)

lemma fst_runField_childName:
  "fst (runField (childNameRule lib) v) = applySanitizer trimmed v"
  by (simp add: runField_def childNameRule_def split_beta Let_def)

lemma runField_childAge:
  "runField childAgeRule v =
     (v, failures ChildAge (isInt 2 12) (ascii ''Child age must be between 2 and 12 years'') v)"
  by (simp add: runField_def childAgeRule_def)

lemma fst_runField_email:
  "fst (runField (emailRule lib) v) =
     applySanitizer (normalizeEmail lib) (applySanitizer trimmed v)"
  by (simp add: runField_def emailRule_def split_beta Let_def)

lemma fst_runField_phone: "fst (runField phoneRule v) = applySanitizer trimmed v"
  by (simp add: runField_def phoneRule_def split_beta Let_def)

lemma runField_preferredProgram:
  "runField preferredProgramRule v =
     (v, if v = JUndefined then []
         else failures PreferredProgram (isIn programKeys)
                (ascii ''Invalid program selection'') v)"
  by (simp add: runField_def preferredProgramRule_def)

lemma fst_runField_message:
  "fst (runField (messageRule lib) v) =
     (if v = JUndefined then JUndefined else applySanitizer trimmed v)"
  by (simp add: runField_def messageRule_def split_beta Let_def)

lemma applySanitizer_scalar:
  "\<forall>xs. v \<noteq> JArr xs \<Longrightarrow> applySanitizer g v = g (toStringEV v)"
  by (cases v) (simp_all add: applySanitizer_def)



lemma failures_empty_array: "failures f p m (JArr []) = []"
  by (simp add: failures_def)

lemma param_failures: "e \<in> set (failures f p m v) \<Longrightarrow> param e = f"
  by (auto simp: failures_def split: if_splits)

lemma param_runSteps: "e \<in> set (snd (runSteps f ss v)) \<Longrightarrow> param e = f"
  by (induction f ss v rule: runSteps.induct)
    (auto simp: split_beta Let_def dest: param_failures)

lemma param_runField: "e \<in> set (snd (runField c v)) \<Longrightarrow> param e = chainField c"
  by (auto simp: runField_def dest: param_runSteps split: if_splits)

lemma decimalValue_snoc: "decimalValue (ds @ [c]) = 10 * decimalValue ds + (c - 48)"
  by (simp add: decimalValue_def)

lemma digitsOf_props:
  "digitsOf n \<noteq> [] \<and> list_all isDigit (digitsOf n) \<and> decimalValue (digitsOf n) = n
   \<and> isDigit (hd (digitsOf n))"
proof (induction n rule: digitsOf.induct)
  case (1 n)
  show ?case
  proof (cases "n < 10")
    case True
    then show ?thesis
      by (subst (1 2 3 4) digitsOf.simps) (simp add: isDigit_def decimalValue_def)
  next
    case False
    with "1" have ih: "digitsOf (n div 10) \<noteq> []" "list_all isDigit (digitsOf (n div 10))"
      "decimalValue (digitsOf (n div 10)) = n div 10" "isDigit (hd (digitsOf (n div 10)))"
      by simp_all
    have eq: "digitsOf n = digitsOf (n div 10) @ [48 + n mod 10]"
      using False by (subst digitsOf.simps) simp
    have last: "isDigit (48 + n mod 10)"
      by (simp add: isDigit_def)
    show ?thesis
      using ih last by (simp add: eq decimalValue_snoc)
  qed
qed

lemma signedDecimal_numberToString: "signedDecimal (numberToString (JInt i)) = Some i"
proof (cases "i < 0")
  case True
  then show ?thesis
    using digitsOf_props [of "nat (- i)"] by (simp add: signedDecimal_def)
next
  case False
  have "hd (digitsOf (nat i)) \<noteq> 43" "hd (digitsOf (nat i)) \<noteq> 45"
    using digitsOf_props [of "nat i"] by (auto simp: isDigit_def)
  then show ?thesis
    using False digitsOf_props [of "nat i"] by (simp add: signedDecimal_def)
qed

lemma isInt_number: "isInt 2 12 (toStringEV (JNum (JInt i))) = (2 \<le> i \<and> i \<le> 12)"
  using signedDecimal_numberToString [of i]
  by (simp add: isInt_def del: numberToString.simps)

lemma signedDecimal_Nil: "signedDecimal [] = None"
  by (simp add: signedDecimal_def)

text \<open>What \<^verbatim>\<open>parseInt\<close> makes of a validated age is the integer it stands for.\<close>

lemma valueIn_decimal:
  "list_all isDigit ds \<Longrightarrow>
     foldl (\<lambda>a c. 10 * a + (case digitVal c of Some d \<Rightarrow> d | None \<Rightarrow> 0)) a ds
       = foldl (\<lambda>a c. 10 * a + (c - 48)) a ds"
  by (induction ds arbitrary: a) (simp_all add: isDigit_def digitVal_def)

lemma takeWhile_digits:
  "list_all isDigit ds \<Longrightarrow> takeWhile (isRadixDigit 10) ds = ds"
  by (induction ds) (auto simp: isDigit_def isRadixDigit_def digitVal_def)

lemma digits_not_hex:
  assumes "list_all isDigit ds"
  shows "take 2 ds \<noteq> ascii ''0x''" "take 2 ds \<noteq> ascii ''0X''"
proof -
  have "list_all isDigit (take 2 ds)"
    using assms by (simp add: list_all_iff) (meson in_set_takeD)
  moreover have "\<not> list_all isDigit (ascii ''0x'')" "\<not> list_all isDigit (ascii ''0X'')"
    by (simp_all add: ascii_def isDigit_def)
  ultimately show "take 2 ds \<noteq> ascii ''0x''" "take 2 ds \<noteq> ascii ''0X''"
    by auto
qed

lemma parseInt_digits:
  assumes "ds \<noteq> []" "list_all isDigit ds"
  shows "parseInt ds = JInt (int (decimalValue ds))"
    and "parseInt (43 # ds) = JInt (int (decimalValue ds))"
    and "parseInt (45 # ds) = JInt (- int (decimalValue ds))"
proof -
  have hd: "isDigit (hd ds)"
    using assms by (cases ds) simp_all
  then have nows: "\<not> isWhiteSpace (hd ds)" "hd ds \<noteq> 43" "hd ds \<noteq> 45"
    by (auto simp: isDigit_def isWhiteSpace_def)
  have ts: "trimStart ds = ds"
    using assms(1) nows(1) by (cases ds) (simp_all add: trimStart_def)
  note facts = digits_not_hex [OF assms(2)] takeWhile_digits [OF assms(2)]
    valueIn_decimal [OF assms(2), of 0]
  show "parseInt ds = JInt (int (decimalValue ds))"
    using assms(1) nows
    by (simp add: parseInt_def Let_def valueIn_def decimalValue_def ts facts)
  show "parseInt (43 # ds) = JInt (int (decimalValue ds))"
    using assms(1)
    by (simp add: parseInt_def Let_def valueIn_def decimalValue_def trimStart_def
        isWhiteSpace_def facts)
  show "parseInt (45 # ds) = JInt (- int (decimalValue ds))"
    using assms(1)
    by (simp add: parseInt_def Let_def valueIn_def decimalValue_def trimStart_def
        isWhiteSpace_def facts)
qed

lemma parseInt_signedDecimal: "signedDecimal s = Some v \<Longrightarrow> parseInt s = JInt v"
proof -
  assume a: "signedDecimal s = Some v"
  show ?thesis
  proof (cases s)
    case Nil
    then show ?thesis using a by (simp add: signedDecimal_def)
  next
    case (Cons c cs)
    consider "c = 45" | "c = 43" | "c \<noteq> 45" "c \<noteq> 43" by blast
    then show ?thesis
    proof cases
      case 1
      then show ?thesis
        using a Cons parseInt_digits(3) [of cs]
        by (auto simp: signedDecimal_def Let_def split: if_splits)
    next
      case 2
      then show ?thesis
        using a Cons parseInt_digits(2) [of cs]
        by (auto simp: signedDecimal_def Let_def split: if_splits)
    next
      case 3
      then show ?thesis
        using a Cons parseInt_digits(1) [of s]
        by (auto simp: signedDecimal_def Let_def split: if_splits)
    qed
  qed
qed

lemma integerOf_parseInt: "integerOf v = Some n \<Longrightarrow> parseInt (toStringJS v) = JInt n"
proof (induction v rule: integerOf.induct)
  case (1 n')
  then show ?case
    using parseInt_signedDecimal [OF signedDecimal_numberToString [of n']] by simp
next
  case (2 s)
  then show ?case by (simp add: parseInt_signedDecimal)
qed simp_all

lemma isInt_rejects_blank: "\<not> isInt lo hi []"
  by (simp add: isInt_def signedDecimal_Nil)

lemma isInt_defined:
  "isInt 2 12 (toStringEV v) \<Longrightarrow> callToString v = Inr (toStringJS v)"
  by (cases v) (simp_all add: isInt_rejects_blank)

lemma childAge_validated_defined:
  assumes "failures ChildAge (isInt 2 12) m v = []"
  shows "callToString v = Inr (toStringJS v)"
proof (cases v)
  case (JArr xs)
  then show ?thesis by simp
qed (use assms in \<open>simp_all add: failures_def isInt_rejects_blank\<close>)

lemma missing_required_field_reported:
  assumes "f \<in> {ParentName, ChildName, ChildAge, Email, Phone}" "b f = JUndefined"
  shows "snd (runChains (inquiryValidation lib) b) \<noteq> []"
proof -
  have "snd (runField (parentNameRule lib) JUndefined) \<noteq> []"
    "snd (runField (childNameRule lib) JUndefined) \<noteq> []"
    "snd (runField childAgeRule JUndefined) \<noteq> []"
    "snd (runField (emailRule lib) JUndefined) \<noteq> []"
    "snd (runField phoneRule JUndefined) \<noteq> []"
    by (simp_all add: runField_def parentNameRule_def childNameRule_def childAgeRule_def
        emailRule_def phoneRule_def split_beta Let_def notEmpty_def trimmed_def trim_def
        trimStart_def trimEnd_def applySanitizer_def failures_def isInt_rejects_blank)
  then show ?thesis
    using assms by (auto simp: runChains_inquiryValidation)
qed

lemma name_field_valid:
  "snd (runField (parentNameRule sampleLib) (JStr (ascii ''Jane Doe''))) = []"
  "snd (runField (childNameRule sampleLib) (JStr (ascii ''Tom Doe''))) = []"
  by (simp_all add: runField_def parentNameRule_def childNameRule_def sampleLib_def split_beta
      Let_def notEmpty_def isLength_def matchesName_def isNameChar_def trimmed_def trim_def
      trimStart_def trimEnd_def isWhiteSpace_def applySanitizer_def failures_def ascii_def)

lemma age_field_valid: "snd (runField childAgeRule (JNum (JInt 5))) = []"
  using isInt_number [of 5]
  by (simp add: runField_childAge failures_def del: toStringEV.simps)

lemma email_field_valid:
  "snd (runField (emailRule sampleLib) (JStr (ascii ''A@Example.com''))) = []"
  "snd (runField (emailRule sampleLib) (JStr (ascii ''+tag@gmail.com''))) = []"
  by (simp_all add: runField_def emailRule_def sampleLib_def split_beta Let_def notEmpty_def
      trimmed_def trim_def trimStart_def trimEnd_def isWhiteSpace_def applySanitizer_def
      failures_def ascii_def)

lemma phone_field_valid:
  "snd (runField phoneRule (JStr (ascii ''+81-90-1234-5678''))) = []"
  "snd (runField phoneRule (JArr [JStr (ascii ''+81-90-1234-5678'')])) = []"
  by (simp_all add: runField_def phoneRule_def split_beta Let_def notEmpty_def
      matchesPhone_def isPhoneChar_def isDigit_def trimmed_def trim_def trimStart_def
      trimEnd_def isWhiteSpace_def applySanitizer_def failures_def ascii_def)

lemma program_field_valid:
  "snd (runField preferredProgramRule (JStr (ascii ''toddlers''))) = []"
  "snd (runField preferredProgramRule (JArr [JStr (ascii ''toddlers''), JStr (ascii ''preschool'')])) = []"
  by (simp_all add: runField_preferredProgram failures_def isIn_def programKeys_def)

lemma message_field_valid: "snd (runField (messageRule sampleLib) (JStr [])) = []"
  by (simp add: runField_def messageRule_def sampleLib_def split_beta Let_def
      isLength_def trimmed_def trim_def trimStart_def trimEnd_def applySanitizer_def failures_def)

lemmas fields_valid = name_field_valid age_field_valid email_field_valid phone_field_valid
  program_field_valid message_field_valid

lemma janeDoe_valid: "snd (runChains (inquiryValidation sampleLib) janeDoe) = []"
  by (simp add: runChains_inquiryValidation janeDoe_def fields_valid)

lemma emptyBody_invalid: "snd (runChains (inquiryValidation sampleLib) emptyBody) \<noteq> []"
  using missing_required_field_reported [of ChildAge emptyBody sampleLib]
  by (simp add: emptyBody_def)

text \<open>
  The rule of the age, on its own: no error is reported for the age exactly when the
  validator \<^verbatim>\<open>isInt({ min: 2, max: 12 })\<close> accepts the field's value, or each element of it
  when it is an array. On a value that is not an array this is the case exactly for an
  integer from 2 to 12, as a number or spelt as text.
\<close>

lemma childAge_accepted:
  "(ChildAge \<notin> param ` set (snd (runChains (inquiryValidation lib) b)))
     = (failures ChildAge (isInt 2 12) (ascii ''Child age must be between 2 and 12 years'')
          (b ChildAge) = [])"
proof -
  have other: "ChildAge \<notin> param ` set (snd (runField c v))" if "chainField c \<noteq> ChildAge" for c v
    using that by (auto dest: param_runField)
  have "(ChildAge \<notin> param ` set (snd (runChains (inquiryValidation lib) b)))
          = (ChildAge \<notin> param ` set (snd (runField childAgeRule (b ChildAge))))"
    using other [of "parentNameRule lib"] other [of "childNameRule lib"]
      other [of "emailRule lib"] other [of phoneRule] other [of preferredProgramRule]
      other [of "messageRule lib"]
    by (simp add: runChains_inquiryValidation chainFields image_Un)
  also have "\<dots> = (snd (runField childAgeRule (b ChildAge)) = [])"
    using param_runField [of _ childAgeRule "b ChildAge"]
    by (cases "snd (runField childAgeRule (b ChildAge))") (auto simp: chainFields)
  finally show ?thesis
    by (simp add: runField_childAge)
qed

lemma signedDecimal_fraction: "signedDecimal (numberToString (JFrac neg ip fds)) = None"
proof -
  have d: "digitsOf ip \<noteq> []" "isDigit (hd (digitsOf ip))"
    using digitsOf_props [of ip] by simp_all
  then have h: "hd (digitsOf ip) \<noteq> 43" "hd (digitsOf ip) \<noteq> 45"
    by (auto simp: isDigit_def)
  have nd: "\<not> isDigit 46" by (simp add: isDigit_def)
  show ?thesis
    using d h nd by (cases neg) (auto simp: signedDecimal_def Let_def)
qed

lemma isInt_scalar:
  "isInt 2 12 (toStringEV (JNum (JInt i))) = (2 \<le> i \<and> i \<le> 12)"
  "\<not> isInt 2 12 (toStringEV (JNum (JFrac neg ip fds)))"
  "\<not> isInt 2 12 (toStringEV (JNum JNaN))"
  "\<not> isInt 2 12 (toStringEV JUndefined)" "\<not> isInt 2 12 (toStringEV JNull)"
  "\<not> isInt 2 12 (toStringEV (JBool t))" "\<not> isInt 2 12 (toStringEV JObj)"
  "isInt 2 12 (toStringEV (JStr s)) = (\<exists>n. signedDecimal s = Some n \<and> 2 \<le> n \<and> n \<le> 12)"
proof -
  show "isInt 2 12 (toStringEV (JNum (JInt i))) = (2 \<le> i \<and> i \<le> 12)"
    by (rule isInt_number)
  show "\<not> isInt 2 12 (toStringEV (JNum (JFrac neg ip fds)))"
    using signedDecimal_fraction [of neg ip fds]
    by (simp add: isInt_def del: numberToString.simps)
  show "\<not> isInt 2 12 (toStringEV (JBool t))" "\<not> isInt 2 12 (toStringEV JObj)"
    by (simp_all add: isInt_def signedDecimal_def ascii_def isDigit_def)
  show "isInt 2 12 (toStringEV (JStr s)) = (\<exists>n. signedDecimal s = Some n \<and> 2 \<le> n \<and> n \<le> 12)"
    by (auto simp: isInt_def split: option.splits)
qed (simp_all add: isInt_rejects_blank)

section \<open>The request handler\<close>

text \<open>
  After a validation without error the handler sanitizes. \<^verbatim>\<open>sanitizeEmail\<close> and
  \<^verbatim>\<open>sanitizePhone\<close> call a string method on what validation left in the field: when
  both fields hold strings the request is answered 200, and when one of them holds
  anything else the call throws, the \<^verbatim>\<open>catch\<close> of the handler answers 500 and nothing
  is sent.
\<close>

lemma sanitizeInput_Inr: "\<exists>t. sanitizeInput v = Inr t"
  by (cases v) simp_all

lemma text_fields_acknowledged:
  assumes ok: "snd (runChains (inquiryValidation lib) reqBody) = []"
    and em: "fst (runChains (inquiryValidation lib) reqBody) Email = JStr e"
    and ph: "fst (runChains (inquiryValidation lib) reqBody) Phone = JStr p"
  shows "fst (inquiryHandler lib now net reqBody) =
           \<lparr>status = 200, success = True, ack = Some acknowledgment,
            error = None, errors = None\<rparr>"
proof -
  let ?raw = "fst (runChains (inquiryValidation lib) reqBody)"
  have "failures ChildAge (isInt 2 12) (ascii ''Child age must be between 2 and 12 years'')
          (reqBody ChildAge) = []"
    using ok by (simp add: runChains_inquiryValidation runField_childAge)
  then have "callToString (reqBody ChildAge) = Inr (toStringJS (reqBody ChildAge))"
    by (rule childAge_validated_defined)
  moreover have "?raw ChildAge = reqBody ChildAge"
    by (simp add: runChains_inquiryValidation runField_childAge)
  ultimately have age: "callToString (?raw ChildAge) = Inr (toStringJS (reqBody ChildAge))"
    by simp
  obtain pn cn m where s: "sanitizeInput (?raw ParentName) = Inr pn"
    "sanitizeInput (?raw ChildName) = Inr cn" "sanitizeInput (?raw Message) = Inr m"
    using sanitizeInput_Inr by metis
  have "\<exists>sd. sanitizedData ?raw = Inr sd"
    by (simp add: sanitizedData_def andThen_def age em ph s)
  then show ?thesis
    using ok by (auto simp: inquiryHandler_def split_beta Let_def)
qed

lemma jserror_TypeError: "(e::jserror) = TypeError"
  by (cases e)

lemma sanitization_fault_answered_500:
  assumes ok: "snd (runChains (inquiryValidation lib) reqBody) = []"
    and bad: "(\<forall>e. fst (runChains (inquiryValidation lib) reqBody) Email \<noteq> JStr e)
              \<or> (\<forall>p. fst (runChains (inquiryValidation lib) reqBody) Phone \<noteq> JStr p)"
  shows "inquiryHandler lib now net reqBody =
           (\<lparr>status = 500, success = False, ack = None,
             error = Some (ascii ''An internal server error occurred. Please try again later.''),
             errors = None\<rparr>, [])"
proof -
  let ?raw = "fst (runChains (inquiryValidation lib) reqBody)"
  have "sanitizeEmail (?raw Email) = Inl TypeError \<or> sanitizePhone (?raw Phone) = Inl TypeError"
    using bad by (cases "?raw Email"; cases "?raw Phone") auto
  then have "sanitizedData ?raw = Inl TypeError"
    using sanitizeInput_Inr [of "?raw ParentName"] sanitizeInput_Inr [of "?raw ChildName"]
    by (cases "callToString (?raw ChildAge)"; cases "sanitizeEmail (?raw Email)")
      (auto simp: sanitizedData_def andThen_def jserror_TypeError [of _])
  then show ?thesis
    using ok by (simp add: inquiryHandler_def split_beta)
qed

lemma lower_examples:
  "toLowerCase (ascii ''A@Example.com'') = ascii ''a@example.com''"
  "toLowerCase (ascii ''a@example.com'') = ascii ''a@example.com''"
  by (simp_all add: toLowerCase_def lowerUnit_def ascii_def)

lemma trim_examples:
  "trim (ascii ''Jane Doe'') = ascii ''Jane Doe''" "trim (ascii ''Tom Doe'') = ascii ''Tom Doe''"
  "trim (ascii ''A@Example.com'') = ascii ''A@Example.com''"
  "trim (ascii ''a@example.com'') = ascii ''a@example.com''"
  "trim (ascii ''+tag@gmail.com'') = ascii ''+tag@gmail.com''"
  "trim (ascii ''+81-90-1234-5678'') = ascii ''+81-90-1234-5678''"
  "trim [] = []"
  by (simp_all add: trim_def trimStart_def trimEnd_def isWhiteSpace_def ascii_def)

lemma sanitize_examples:
  "sanitizeInput (JStr (ascii ''Jane Doe'')) = Inr (ascii ''Jane Doe'')"
  "sanitizeInput (JStr (ascii ''Tom Doe'')) = Inr (ascii ''Tom Doe'')"
  "sanitizePhone (JStr (ascii ''+81-90-1234-5678'')) = Inr (ascii ''+81-90-1234-5678'')"
  by (simp_all add: trim_examples)
    (simp_all add: escapeHtml_def escapeUnit_def isReserved_def removeAngle_def
      isPhoneChar_def isDigit_def ascii_def)

lemma sampleLib_normalizes:
  "normalizeEmail sampleLib (ascii ''A@Example.com'') = JStr (ascii ''a@example.com'')"
  "normalizeEmail sampleLib (ascii ''+tag@gmail.com'') = JBool False"
  using lower_examples(1) by (simp_all add: sampleLib_def) (simp add: ascii_def)

lemma sanitizedData_sample:
  assumes "b ParentName = JStr (ascii ''Jane Doe'')" "b ChildName = JStr (ascii ''Tom Doe'')"
    "b Email = JStr (ascii ''A@Example.com'')" "b Phone = JStr (ascii ''+81-90-1234-5678'')"
    "b Message = JStr []"
  shows "sanitizedData (fst (runChains (inquiryValidation sampleLib) b)) =
           andThen (callToString (b ChildAge)) (\<lambda>age.
             Inr \<lparr>parentName = ascii ''Jane Doe'', childName = ascii ''Tom Doe'',
                  childAge = parseInt age, email = ascii ''a@example.com'',
                  phone = ascii ''+81-90-1234-5678'',
                  preferredProgram =
                    (if truthy (b PreferredProgram) then toStringJS (b PreferredProgram)
                     else []),
                  message = Some []\<rparr>)"
  by (simp add: runChains_inquiryValidation sanitizedData_def andThen_def assms
      fst_runField_parentName fst_runField_childName runField_childAge fst_runField_email
      fst_runField_phone runField_preferredProgram fst_runField_message
      applySanitizer_def trimmed_def trim_examples sampleLib_normalizes lower_examples
      sanitize_examples del: sanitizeInput.simps sanitizePhone.simps split: sum.splits)

lemma handler_sample:
  assumes "b ParentName = JStr (ascii ''Jane Doe'')" "b ChildName = JStr (ascii ''Tom Doe'')"
    "b Email = JStr (ascii ''A@Example.com'')" "b Phone = JStr (ascii ''+81-90-1234-5678'')"
    "b Message = JStr []"
    and "snd (runChains (inquiryValidation sampleLib) b) = []"
    and "callToString (b ChildAge) = Inr age"
  shows "inquiryHandler sampleLib now net b =
           (\<lparr>status = 200, success = True, ack = Some acknowledgment,
             error = None, errors = None\<rparr>,
            [TelegramSendMessage (formattedText (formatInquiry now
               \<lparr>parentName = ascii ''Jane Doe'', childName = ascii ''Tom Doe'',
                childAge = parseInt age, email = ascii ''a@example.com'',
                phone = ascii ''+81-90-1234-5678'',
                preferredProgram =
                  (if truthy (b PreferredProgram) then toStringJS (b PreferredProgram) else []),
                message = Some []\<rparr>)),
             ConfirmationEmail (ascii ''a@example.com'') (ascii ''Tom Doe'')])"
  using assms(6,7) sanitizedData_sample [OF assms(1-5)]
  by (simp add: inquiryHandler_def split_beta Let_def andThen_def)

lemma sub_age:
  "\<exists>pre post. templateLines now data p m =
     pre @ ascii ''Age: '' @ numberToString (childAge data) @ ascii '' years old'' @ post"
proof -
  have "templateLines now data p m =
          ([55357, 56538] @ ascii '' *New Inquiry - Kumagaya Kids English*'' @ [10]
           @ [10]
           @ [55357, 56424, 8205, 55357, 56425, 8205, 55357, 56423]
           @ ascii '' *Parent Information:*'' @ [10]
           @ [8226] @ ascii '' Name: '' @ parentName data @ [10]
           @ [8226] @ ascii '' Email: '' @ email data @ [10]
           @ [8226] @ ascii '' Phone: '' @ phone data @ [10]
           @ [10]
           @ [55357, 56438] @ ascii '' *Child Information:*'' @ [10]
           @ [8226] @ ascii '' Name: '' @ childName data @ [10]
           @ [8226, 32])
          @ ascii ''Age: '' @ numberToString (childAge data) @ ascii '' years old''
          @ ([10]
           @ [10]
           @ [55357, 56534] @ ascii '' *Program Interest:*'' @ [10]
           @ p @ [10]
           @ [10]
           @ [55357, 56492] @ ascii '' *Message:*'' @ [10]
           @ m @ [10]
           @ [10]
           @ ascii ''---'' @ [10]
           @ ascii ''_Received at '' @ now @ ascii ''_'')"
    by (simp add: templateLines_def ascii_def)
  then show ?thesis by blast
qed

text \<open>
  Claim C5. The claim has the age pass validation only when it is an integer from 2 to
  12. A request whose \<^verbatim>\<open>childAge\<close> is the empty array passes: the library tests the
  elements of an array and an empty array has none, so no error is reported for the age
  (with every library, whatever the other fields). With the other fields of the
  end-to-end scenario the request is answered 200; the handler reads the age as
  \<^verbatim>\<open>parseInt([].toString())\<close>, which is NaN, and the text sent to Telegram says
  \<^verbatim>\<open>Age: NaN years old\<close>.
\<close>

theorem childAge_empty_array_accepted:
  "ChildAge \<notin> param ` set (snd (runChains (inquiryValidation lib) (b(ChildAge := JArr []))))
   \<and> snd (runChains (inquiryValidation sampleLib) (janeDoe(ChildAge := JArr []))) = []
   \<and> (\<exists>sd. inquiryHandler sampleLib now net (janeDoe(ChildAge := JArr [])) =
              (\<lparr>status = 200, success = True, ack = Some acknowledgment,
                error = None, errors = None\<rparr>,
               [TelegramSendMessage (formattedText (formatInquiry now sd)),
                ConfirmationEmail (email sd) (childName sd)])
         \<and> childAge sd = JNaN
         \<and> (\<exists>pre post. formattedText (formatInquiry now sd) =
                          pre @ ascii ''Age: NaN years old'' @ post))"
proof -
  let ?b = "janeDoe(ChildAge := JArr [])"
  define sd :: InquiryFormData where
    "sd = \<lparr>parentName = ascii ''Jane Doe'', childName = ascii ''Tom Doe'', childAge = JNaN,
            email = ascii ''a@example.com'', phone = ascii ''+81-90-1234-5678'',
            preferredProgram = ascii ''toddlers'', message = Some []\<rparr>"
  have acc: "ChildAge \<notin> param ` set (snd (runChains (inquiryValidation lib) (b(ChildAge := JArr []))))"
    by (simp add: childAge_accepted failures_empty_array)
  have "snd (runField childAgeRule (JArr [])) = []"
    by (simp add: runField_childAge failures_empty_array)
  then have ok: "snd (runChains (inquiryValidation sampleLib) ?b) = []"
    by (simp add: runChains_inquiryValidation janeDoe_def fields_valid)
  have "parseInt [] = JNaN"
    by (simp add: parseInt_def trimStart_def ascii_def)
  then have h: "inquiryHandler sampleLib now net ?b =
              (\<lparr>status = 200, success = True, ack = Some acknowledgment,
                error = None, errors = None\<rparr>,
               [TelegramSendMessage (formattedText (formatInquiry now sd)),
                ConfirmationEmail (email sd) (childName sd)])"
    using handler_sample [of ?b "[]" now net] ok
    by (simp add: janeDoe_def sd_def)
  have age: "childAge sd = JNaN" by (simp add: sd_def)
  obtain pre post where "formattedText (formatInquiry now sd) =
      pre @ ascii ''Age: '' @ numberToString (childAge sd) @ ascii '' years old'' @ post"
    using sub_age [of now sd] by (metis formattedText_closed)
  then have "formattedText (formatInquiry now sd) = pre @ ascii ''Age: NaN years old'' @ post"
    by (simp add: age ascii_def)
  then show ?thesis
    using acc ok h age by blast
qed

text \<open>
  Claim C9. The claim has every validated \<^verbatim>\<open>preferredProgram\<close> among the six keys of the
  table, and the fallback of the formatter out of reach. A request whose
  \<^verbatim>\<open>preferredProgram\<close> is the array of \<^verbatim>\<open>toddlers\<close> and \<^verbatim>\<open>preschool\<close> passes validation,
  since each element is one of the keys; the handler keeps the array, the formatter looks
  up \<^verbatim>\<open>toddlers,preschool\<close>, which is no key of the table, and the label is the fallback.
\<close>

theorem program_array_reaches_fallback:
  "snd (runChains (inquiryValidation sampleLib)
         (janeDoe(PreferredProgram := JArr [JStr (ascii ''toddlers''), JStr (ascii ''preschool'')])))
     = []
   \<and> (\<exists>sd. inquiryHandler sampleLib now net
               (janeDoe(PreferredProgram :=
                  JArr [JStr (ascii ''toddlers''), JStr (ascii ''preschool'')])) =
              (\<lparr>status = 200, success = True, ack = Some acknowledgment,
                error = None, errors = None\<rparr>,
               [TelegramSendMessage (formattedText (formatInquiry now sd)),
                ConfirmationEmail (email sd) (childName sd)])
         \<and> preferredProgram sd = ascii ''toddlers,preschool''
         \<and> preferredProgram sd \<notin> set programKeys
         \<and> programNames (preferredProgram sd) = None
         \<and> programName (preferredProgram sd) = Text (ascii ''toddlers,preschool''))"
proof -
  let ?b = "janeDoe(PreferredProgram := JArr [JStr (ascii ''toddlers''), JStr (ascii ''preschool'')])"
  define sd :: InquiryFormData where
    "sd = \<lparr>parentName = ascii ''Jane Doe'', childName = ascii ''Tom Doe'', childAge = JInt 5,
            email = ascii ''a@example.com'', phone = ascii ''+81-90-1234-5678'',
            preferredProgram = ascii ''toddlers,preschool'', message = Some []\<rparr>"
  have ok: "snd (runChains (inquiryValidation sampleLib) ?b) = []"
    by (simp add: runChains_inquiryValidation janeDoe_def fields_valid)
  have age: "parseInt (toStringJS (JNum (JInt 5))) = JInt 5"
    by (rule integerOf_parseInt) simp
  have h: "inquiryHandler sampleLib now net ?b =
              (\<lparr>status = 200, success = True, ack = Some acknowledgment,
                error = None, errors = None\<rparr>,
               [TelegramSendMessage (formattedText (formatInquiry now sd)),
                ConfirmationEmail (email sd) (childName sd)])"
    using handler_sample [of ?b "toStringJS (JNum (JInt 5))" now net] ok age
    by (simp add: janeDoe_def sd_def del: toStringJS.simps(4)) (simp add: ascii_def)
  have "preferredProgram sd = ascii ''toddlers,preschool''"
    "preferredProgram sd \<notin> set programKeys"
    "programNames (preferredProgram sd) = None"
    "programName (preferredProgram sd) = Text (ascii ''toddlers,preschool'')"
    by (simp_all add: sd_def programKeys_def programNames_def programName_def
        objectPrototypeKeys_def ascii_def)
  then show ?thesis
    using ok h by blast
qed

text \<open>
  Claim C2. The claim has every request that passes validation answered 200. The
  address \<^verbatim>\<open>+tag@gmail.com\<close> passes validation and \<^verbatim>\<open>normalizeEmail\<close> leaves \<^verbatim>\<open>false\<close> in
  the field; a phone number sent as an array of one string passes validation and stays
  an array. In both cases the sanitizer throws, the request is answered 500 and nothing
  is sent, whatever the network does.
\<close>

theorem valid_submission_answered_500:
  "snd (runChains (inquiryValidation sampleLib) (janeDoe(Email := JStr (ascii ''+tag@gmail.com''))))
     = []
   \<and> inquiryHandler sampleLib now net (janeDoe(Email := JStr (ascii ''+tag@gmail.com''))) =
       (\<lparr>status = 500, success = False, ack = None,
         error = Some (ascii ''An internal server error occurred. Please try again later.''),
         errors = None\<rparr>, [])
   \<and> snd (runChains (inquiryValidation sampleLib)
            (janeDoe(Phone := JArr [JStr (ascii ''+81-90-1234-5678'')]))) = []
   \<and> inquiryHandler sampleLib now net
         (janeDoe(Phone := JArr [JStr (ascii ''+81-90-1234-5678'')])) =
       (\<lparr>status = 500, success = False, ack = None,
         error = Some (ascii ''An internal server error occurred. Please try again later.''),
         errors = None\<rparr>, [])"
proof -
  let ?e = "janeDoe(Email := JStr (ascii ''+tag@gmail.com''))"
  let ?p = "janeDoe(Phone := JArr [JStr (ascii ''+81-90-1234-5678'')])"
  have oke: "snd (runChains (inquiryValidation sampleLib) ?e) = []"
    and okp: "snd (runChains (inquiryValidation sampleLib) ?p) = []"
    by (simp_all add: runChains_inquiryValidation janeDoe_def fields_valid)
  have "fst (runChains (inquiryValidation sampleLib) ?e) Email = JBool False"
    by (simp add: runChains_inquiryValidation fst_runField_email applySanitizer_def
        trimmed_def trim_examples sampleLib_normalizes)
  then have e: "\<forall>s. fst (runChains (inquiryValidation sampleLib) ?e) Email \<noteq> JStr s"
    by simp
  have "\<exists>xs. fst (runChains (inquiryValidation sampleLib) ?p) Phone = JArr xs"
    by (simp add: runChains_inquiryValidation fst_runField_phone applySanitizer_def)
  then have p: "\<forall>s. fst (runChains (inquiryValidation sampleLib) ?p) Phone \<noteq> JStr s"
    by auto
  show ?thesis
    using oke okp sanitization_fault_answered_500 [OF oke, of now net]
      sanitization_fault_answered_500 [OF okp, of now net] e p
    by blast
qed

text \<open>
  The end-to-end scenario of the specification: the request is answered 200 with the
  acknowledgment although the call to Telegram fails, and the confirmation goes to the
  lower-cased address.
\<close>

lemma janeDoe_end_to_end:
  "\<exists>t. inquiryHandler sampleLib now NetFailure janeDoe =
     (\<lparr>status = 200, success = True, ack = Some acknowledgment, error = None, errors = None\<rparr>,
      [TelegramSendMessage t, ConfirmationEmail (ascii ''a@example.com'') (ascii ''Tom Doe'')])"
  using handler_sample [of janeDoe "toStringJS (JNum (JInt 5))" now NetFailure] janeDoe_valid
  by (simp add: janeDoe_def del: toStringJS.simps(4))

text \<open>
  Claim C1. When the validation reports at least one error, the handler answers 400 with
  the list of the errors and makes no outbound call: nothing is sent to Telegram, no
  confirmation is sent, and nothing is sanitized or formatted. (A required field that is
  absent is one such case: \<open>missing_required_field_reported\<close>.)
\<close>

theorem validation_failure_rejected:
  assumes "snd (runChains (inquiryValidation lib) reqBody) \<noteq> []"
  shows "inquiryHandler lib now net reqBody =
           (\<lparr>status = 400, success = False, ack = None,
             error = Some (ascii ''Validation failed''),
             errors = Some (snd (runChains (inquiryValidation lib) reqBody))\<rparr>, [])"
  using assms by (simp add: inquiryHandler_def split_beta)

theorem validation_failure_rejected_witness:
  "snd (runChains (inquiryValidation sampleLib) emptyBody) \<noteq> []
   \<and> inquiryHandler sampleLib (ascii ''2026/1/1 10:00:00'') (Replied 200) emptyBody =
       (\<lparr>status = 400, success = False, ack = None, error = Some (ascii ''Validation failed''),
         errors = Some (snd (runChains (inquiryValidation sampleLib) emptyBody))\<rparr>, [])"
  using emptyBody_invalid validation_failure_rejected [OF emptyBody_invalid] by simp

section \<open>The program that reaches the formatter\<close>

















end
